theory Spec2Isabelle
  imports Complex_Main
begin

section \<open>Session state of the voice chat (src/chat.py)\<close>

text \<open>
  The chat session of \<^verbatim>\<open>src/chat.py\<close> is embedded by explicit state passing.
  \<^verbatim>\<open>ChatState\<close> is the dataclass of lines 12-23, field by field. Turns of the
  transcript are the strings the code stores: \<^verbatim>\<open>"You: " + text\<close> for the user and
  \<^verbatim>\<open>"Assistant: " + text\<close> for the reply. Stream and PyAudio objects are opaque
  handles (natural numbers). A recorded frame is the list of samples it holds; the
  float32 samples are idealised as reals (no rounding, no NaN).
\<close>

type_synonym audio = "real list"

record ChatState =
  chat_history :: "string list"
  scroll_offset :: int
  recording_stream :: "nat option"
  recording_frames :: "audio list option"
  recording_pyaudio :: "nat option"
  last_user_message :: "string option"
  processing :: bool
  is_ptt_mode :: bool
  sample_rate :: "int option"

text \<open>
  The entries of \<^verbatim>\<open>selected_settings\<close> that the chat manager reads
  (\<^verbatim>\<open>settings.get(...)\<close> yields \<^verbatim>\<open>None\<close> for a missing key).
\<close>

record chat_settings =
  tts_voice :: "string option"
  voice_1 :: "string option"
  voice_2 :: "string option"
  blend_ratio :: "int option"

text \<open>
  Everything the manager does to the outside is recorded, in order, in a trace: the
  status callback, the transcript-updated callback, the call of
  \<^verbatim>\<open>whisper.play_audio\<close> and the calls on the audio device.
  \<^verbatim>\<open>time.sleep\<close> and \<^verbatim>\<open>print\<close> are left out.
\<close>

datatype event =
    Status string
  | ChatUpdated
  | PlayAudio audio "int option"
  | StreamOpen nat
  | StreamStart nat
  | StreamStop nat
  | StreamClose nat
  | Terminate nat

record ChatManager =
  state :: ChatState
  settings :: chat_settings
  on_chat_updated :: bool
  trace :: "event list"

datatype exn = Exn string

fun str :: "exn \<Rightarrow> string" where
  "str (Exn msg) = msg"

text \<open>Lines 31-44: the state a new manager starts with; no transcript callback yet.\<close>

definition initial_state :: ChatState where
  "initial_state =
     \<lparr> chat_history = [], scroll_offset = 0, recording_stream = None,
       recording_frames = None, recording_pyaudio = None, last_user_message = None,
       processing = False, is_ptt_mode = True, sample_rate = None \<rparr>"

definition new_manager :: "chat_settings \<Rightarrow> ChatManager" where
  "new_manager st =
     \<lparr> state = initial_state, settings = st, on_chat_updated = False, trace = [] \<rparr>"

text \<open>
  \<^verbatim>\<open>start_chat\<close> (src/chat_ui.py, line 17) registers the transcript callback before
  any event is handled.
\<close>

definition start_chat_manager :: "chat_settings \<Rightarrow> ChatManager" where
  "start_chat_manager st = (new_manager st)\<lparr> on_chat_updated := True \<rparr>"

subsection \<open>Callbacks and field updates\<close>

definition emit :: "event \<Rightarrow> ChatManager \<Rightarrow> ChatManager" where
  "emit e m = m\<lparr> trace := trace m @ [e] \<rparr>"

definition status_callback :: "string \<Rightarrow> ChatManager \<Rightarrow> ChatManager" where
  "status_callback msg m = emit (Status msg) m"

text \<open>\<^verbatim>\<open>if self.on_chat_updated: self.on_chat_updated()\<close>\<close>

definition notify_chat_updated :: "ChatManager \<Rightarrow> ChatManager" where
  "notify_chat_updated m = (if on_chat_updated m then emit ChatUpdated m else m)"

definition set_processing :: "bool \<Rightarrow> ChatManager \<Rightarrow> ChatManager" where
  "set_processing b m = m\<lparr> state := (state m)\<lparr> processing := b \<rparr> \<rparr>"

definition set_last_user_message :: "string \<Rightarrow> ChatManager \<Rightarrow> ChatManager" where
  "set_last_user_message u m = m\<lparr> state := (state m)\<lparr> last_user_message := Some u \<rparr> \<rparr>"

definition set_chat_history :: "string list \<Rightarrow> ChatManager \<Rightarrow> ChatManager" where
  "set_chat_history h m = m\<lparr> state := (state m)\<lparr> chat_history := h \<rparr> \<rparr>"

definition append_chat :: "string \<Rightarrow> ChatManager \<Rightarrow> ChatManager" where
  "append_chat line m = set_chat_history (chat_history (state m) @ [line]) m"

definition user_turn :: "string \<Rightarrow> string" where
  "user_turn t = ''You: '' @ t"

definition assistant_turn :: "string \<Rightarrow> string" where
  "assistant_turn t = ''Assistant: '' @ t"

subsection \<open>stop_processing (lines 201-205)\<close>

definition stop_processing :: "ChatManager \<Rightarrow> ChatManager" where
  "stop_processing m =
     (if processing (state m)
      then status_callback ''Processing stopped!'' (set_processing False m)
      else m)"

subsection \<open>process_voice_input (lines 89-144)\<close>

text \<open>
  The generation and synthesis engines are collaborators of the manager; what they
  answer in one call of \<^verbatim>\<open>process_voice_input\<close> is the environment of that call:
  \<^item> \<open>chat_outcome\<close>: what \<^verbatim>\<open>self.llm.chat(user_message)\<close> does in this call, a
    raised exception (\<open>Inl\<close>) or the reply;
  \<^item> \<open>create_outcome\<close>, \<open>create_with_blend_outcome\<close>: what the two synthesis calls
    do, an exception or the pair \<^verbatim>\<open>(audio_data, sample_rate)\<close>, each possibly
    \<^verbatim>\<open>None\<close>;
  \<^item> \<open>stop_during_chat\<close>, \<open>stop_during_tts\<close>: whether \<^verbatim>\<open>stop_processing\<close> is
    called while the engine call blocks. The code reads \<^verbatim>\<open>self.state.processing\<close>
    again at lines 108 and 133; the flag can only have changed through such a call.
\<close>

type_synonym synth = "audio option \<times> int option"

record turn_env =
  chat_outcome :: "exn + string"
  create_outcome :: "exn + synth"
  create_with_blend_outcome :: "exn + synth"
  stop_during_chat :: bool
  stop_during_tts :: bool

text \<open>
  Lines 111-131: the voice settings select one of the two synthesis calls
  (\<^verbatim>\<open>create_with_blend\<close> when the voice is \<^verbatim>\<open>"[ Blend Voices ]"\<close>, else
  \<^verbatim>\<open>create\<close>); the environment holds what the selected call answers.
\<close>

definition synthesize :: "turn_env \<Rightarrow> chat_settings \<Rightarrow> exn + synth" where
  "synthesize env st =
     (if tts_voice st = Some ''[ Blend Voices ]''
      then create_with_blend_outcome env
      else create_outcome env)"

text \<open>
  Lines 108-135, entered when \<^verbatim>\<open>processing\<close> still holds. An exception leaves with
  the manager as it is at that moment.
\<close>

definition interleaved_stop :: "bool \<Rightarrow> ChatManager \<Rightarrow> ChatManager" where
  "interleaved_stop stopped m = (if stopped then stop_processing m else m)"

definition synthesis_stage ::
  "turn_env \<Rightarrow> ChatManager \<Rightarrow> (exn \<times> ChatManager) + ChatManager" where
  "synthesis_stage env m =
     (let m1 = status_callback ''Synthesizing speech...'' m;
          m2 = interleaved_stop (stop_during_tts env) m1
      in case synthesize env (settings m) of
           Inl e \<Rightarrow> Inl (e, m2)
         | Inr (audio_data, rate) \<Rightarrow>
             (case audio_data of
                None \<Rightarrow> Inr m2
              | Some a \<Rightarrow>
                  if processing (state m2)
                  then Inr (emit (PlayAudio a rate) (status_callback ''Playing response...'' m2))
                  else Inr m2))"

text \<open>Lines 102-139: the body of the \<^verbatim>\<open>try\<close>.\<close>

definition try_body ::
  "turn_env \<Rightarrow> ChatManager \<Rightarrow> (exn \<times> ChatManager) + ChatManager" where
  "try_body env m =
     (let m0 = interleaved_stop (stop_during_chat env) m
      in case chat_outcome env of
           Inl e \<Rightarrow> Inl (e, m0)
         | Inr assistant_message \<Rightarrow>
             (let m1 = notify_chat_updated (append_chat (assistant_turn assistant_message) m0)
              in case (if processing (state m1)
                       then synthesis_stage env m1
                       else Inr m1) of
                   Inl em \<Rightarrow> Inl em
                 | Inr m2 \<Rightarrow> Inr (status_callback ''Ready to chat!'' (set_processing False m2))))"

text \<open>Lines 94-99: the turn is accepted, before the \<^verbatim>\<open>try\<close>.\<close>

definition accept_turn :: "string \<Rightarrow> ChatManager \<Rightarrow> ChatManager" where
  "accept_turn user_message m =
     status_callback ''Thinking...''
       (set_processing True
          (notify_chat_updated
             (append_chat (user_turn user_message)
                (set_last_user_message user_message m))))"

definition process_voice_input ::
  "turn_env \<Rightarrow> string \<Rightarrow> ChatManager \<Rightarrow> bool \<times> ChatManager" where
  "process_voice_input env user_message m =
     (if user_message = [] then (False, m)
      else case try_body env (accept_turn user_message m) of
             Inr m' \<Rightarrow> (True, m')
           | Inl (e, m') \<Rightarrow>
               (False,
                set_processing False
                  (status_callback (''Error processing input: '' @ str e) m')))"

subsection \<open>redo_last_message, clear_history, toggle_ptt_mode (lines 187-216)\<close>

text \<open>
  \<^verbatim>\<open>chat_history[:-2] if len(chat_history) >= 2 else []\<close>: the slice drops the last
  two entries, whatever they are.
\<close>

definition drop_last_exchange :: "string list \<Rightarrow> string list" where
  "drop_last_exchange h = (if length h \<ge> 2 then take (length h - 2) h else [])"

text \<open>
  \<^verbatim>\<open>not self.state.last_user_message\<close> holds for \<^verbatim>\<open>None\<close> and for the empty string.
\<close>

definition redo_last_message :: "turn_env \<Rightarrow> ChatManager \<Rightarrow> bool \<times> ChatManager" where
  "redo_last_message env m =
     (case last_user_message (state m) of
        None \<Rightarrow> (False, m)
      | Some u \<Rightarrow>
          if u = [] \<or> processing (state m) then (False, m)
          else process_voice_input env u
                 (notify_chat_updated
                    (set_chat_history (drop_last_exchange (chat_history (state m))) m)))"

definition clear_history :: "ChatManager \<Rightarrow> ChatManager" where
  "clear_history m =
     notify_chat_updated
       (status_callback ''Chat history cleared!''
          (m\<lparr> state := (state m)\<lparr> chat_history := [], scroll_offset := 0 \<rparr> \<rparr>))"

definition toggle_ptt_mode :: "ChatManager \<Rightarrow> ChatManager" where
  "toggle_ptt_mode m =
     (let m1 = m\<lparr> state := (state m)\<lparr> is_ptt_mode := \<not> is_ptt_mode (state m) \<rparr> \<rparr>;
          mode_name = (if is_ptt_mode (state m1) then ''Push-to-Talk'' else ''Passive'')
      in status_callback (''Switched to '' @ mode_name @ '' mode'') m1)"

subsection \<open>Scrolling (src/chat_ui.py, lines 94-102)\<close>

text \<open>
  The two key handlers of \<^verbatim>\<open>start_chat\<close>. In passive mode the loop starts a passive
  capture before it looks at these keys; the handlers are admitted in every state
  here, so that the runs below cover more than the program performs.
\<close>

definition key_up :: "ChatManager \<Rightarrow> ChatManager" where
  "key_up m =
     (if scroll_offset (state m) < int (length (chat_history (state m))) * 2
      then m\<lparr> state := (state m)\<lparr> scroll_offset := scroll_offset (state m) + 1 \<rparr> \<rparr>
      else m)"

definition key_down :: "ChatManager \<Rightarrow> ChatManager" where
  "key_down m =
     (if scroll_offset (state m) > 0
      then m\<lparr> state := (state m)\<lparr> scroll_offset := scroll_offset (state m) - 1 \<rparr> \<rparr>
      else m)"

subsection \<open>Recording (src/chat.py, lines 146-185; src/whisper.py, lines 26-80)\<close>

text \<open>
  \<^verbatim>\<open>whisper.record_audio\<close> creates the PyAudio object and opens the stream inside a
  \<^verbatim>\<open>try\<close>. What the device does is the environment of the call: creating PyAudio
  raises, opening the stream raises (the handler then terminates PyAudio), or both
  succeed. On success the frame list starts empty and the rate is the default 16000.
\<close>

datatype open_outcome = PyAudioRaises | OpenRaises nat | Opened nat nat

definition record_audio ::
  "open_outcome \<Rightarrow> (nat option \<times> audio list option \<times> nat option \<times> int option) \<times> event list" where
  "record_audio dev =
     (case dev of
        PyAudioRaises \<Rightarrow> ((None, None, None, None), [])
      | OpenRaises p \<Rightarrow> ((None, None, None, None), [Terminate p])
      | Opened stream p \<Rightarrow> ((Some stream, Some [], Some p, Some 16000), [StreamOpen stream]))"

definition emit_all :: "event list \<Rightarrow> ChatManager \<Rightarrow> ChatManager" where
  "emit_all es m = m\<lparr> trace := trace m @ es \<rparr>"

definition start_recording :: "open_outcome \<Rightarrow> ChatManager \<Rightarrow> bool \<times> ChatManager" where
  "start_recording dev m =
     (if recording_stream (state m) \<noteq> None \<or> processing (state m) then (False, m)
      else case record_audio dev of
        ((stream, frames, pyaudio, rate), es) \<Rightarrow>
          (case stream of
             None \<Rightarrow>
               (False, status_callback ''Error: Could not start recording'' (emit_all es m))
           | Some s \<Rightarrow>
               (True,
                emit (StreamStart s)
                  ((emit_all es m)\<lparr> state := (state m)
                     \<lparr> recording_stream := stream, recording_frames := frames,
                       recording_pyaudio := pyaudio, sample_rate := rate \<rparr> \<rparr>))))"

text \<open>
  The stream callback of \<^verbatim>\<open>record_audio\<close> (lines 32-36) appends each delivered frame
  to the frame list that the state holds.
\<close>

definition audio_callback :: "audio \<Rightarrow> ChatManager \<Rightarrow> ChatManager" where
  "audio_callback in_data m =
     (case recording_frames (state m) of
        None \<Rightarrow> m
      | Some fs \<Rightarrow> m\<lparr> state := (state m)\<lparr> recording_frames := Some (fs @ [in_data]) \<rparr> \<rparr>)"

text \<open>
  \<^verbatim>\<open>whisper.stop_recording\<close> runs \<^verbatim>\<open>stop_stream\<close>, \<^verbatim>\<open>close\<close> and \<^verbatim>\<open>terminate\<close>
  inside a \<^verbatim>\<open>try\<close> whose handler returns \<^verbatim>\<open>None\<close>; which of the three calls raises,
  if any, is the environment. The frames are joined into one array
  (\<^verbatim>\<open>np.frombuffer(b''.join(frames))\<close>); \<^verbatim>\<open>np.max\<close> of an empty array raises, which the
  handler turns into \<^verbatim>\<open>None\<close>; an array whose peak exceeds 1 is divided by its peak.
\<close>

datatype device_fault = NoFault | StopStreamRaises | CloseRaises | TerminateRaises

definition normalize_audio :: "audio \<Rightarrow> audio" where
  "normalize_audio a =
     (let peak = Max (set (map abs a))
      in if peak > 1 then map (\<lambda>x. x / peak) a else a)"

definition close_events :: "device_fault \<Rightarrow> nat \<Rightarrow> nat \<Rightarrow> event list" where
  "close_events fault s p =
     (case fault of
        StopStreamRaises \<Rightarrow> []
      | CloseRaises \<Rightarrow> [StreamStop s]
      | TerminateRaises \<Rightarrow> [StreamStop s, StreamClose s]
      | NoFault \<Rightarrow> [StreamStop s, StreamClose s, Terminate p])"

definition whisper_stop_recording ::
  "device_fault \<Rightarrow> nat option \<Rightarrow> audio list option \<Rightarrow> nat option \<Rightarrow> audio option \<times> event list" where
  "whisper_stop_recording fault stream frames p =
     (case stream of
        None \<Rightarrow> (None, [])
      | Some s \<Rightarrow>
          (case p of
             None \<Rightarrow> (None, [])
           | Some pa \<Rightarrow>
               (if fault = NoFault
                then (case frames of
                        None \<Rightarrow> None
                      | Some fs \<Rightarrow>
                          if fs = [] then None
                          else if concat fs = [] then None
                          else Some (normalize_audio (concat fs)))
                else None,
                close_events fault s pa)))"

definition stop_recording ::
  "device_fault \<Rightarrow> ChatManager \<Rightarrow> (audio \<times> int option) option \<times> ChatManager" where
  "stop_recording fault m =
     (case recording_stream (state m) of
        None \<Rightarrow> (None, m)
      | Some s \<Rightarrow>
          (let m1 = status_callback ''Processing audio...'' m;
               (audio_data, es) =
                  whisper_stop_recording fault (recording_stream (state m1))
                    (recording_frames (state m1)) (recording_pyaudio (state m1));
               rate = sample_rate (state m1);
               m2 = (emit_all es m1)\<lparr> state := (state m1)
                      \<lparr> recording_stream := None, recording_frames := None,
                        recording_pyaudio := None, sample_rate := None \<rparr> \<rparr>
           in case audio_data of
                None \<Rightarrow> (None, m2)
              | Some a \<Rightarrow> if length a > 0 then (Some (a, rate), m2) else (None, m2)))"

text \<open>
  The number of captures open on the device after a trace: streams opened and not yet
  closed.
\<close>

fun open_captures :: "event list \<Rightarrow> int" where
  "open_captures [] = 0"
| "open_captures (StreamOpen s # es) = open_captures es + 1"
| "open_captures (StreamClose s # es) = open_captures es - 1"
| "open_captures (e # es) = open_captures es"

text \<open>The number of calls of \<^verbatim>\<open>whisper.play_audio\<close> in a trace.\<close>

fun playback_calls :: "event list \<Rightarrow> nat" where
  "playback_calls [] = 0"
| "playback_calls (PlayAudio a r # es) = Suc (playback_calls es)"
| "playback_calls (e # es) = playback_calls es"

text \<open>The status line shows the last reported status.\<close>

fun last_status :: "event list \<Rightarrow> string option" where
  "last_status [] = None"
| "last_status (Status msg # es) = (case last_status es of None \<Rightarrow> Some msg | Some l \<Rightarrow> Some l)"
| "last_status (e # es) = last_status es"

section \<open>Runs of the session\<close>

text \<open>
  The operations the presentation layer invokes on the manager, each with the
  environment of that call, and their effect on the manager.
\<close>

datatype op =
    ProcessVoiceInput turn_env string
  | RedoLastMessage turn_env
  | ClearHistory
  | TogglePttMode
  | StopProcessing
  | StartRecording open_outcome
  | AudioCallback audio
  | StopRecording device_fault
  | KeyUp
  | KeyDown

fun apply_op :: "op \<Rightarrow> ChatManager \<Rightarrow> ChatManager" where
  "apply_op (ProcessVoiceInput env t) m = snd (process_voice_input env t m)"
| "apply_op (RedoLastMessage env) m = snd (redo_last_message env m)"
| "apply_op ClearHistory m = clear_history m"
| "apply_op TogglePttMode m = toggle_ptt_mode m"
| "apply_op StopProcessing m = stop_processing m"
| "apply_op (StartRecording dev) m = snd (start_recording dev m)"
| "apply_op (AudioCallback in_data) m = audio_callback in_data m"
| "apply_op (StopRecording fault) m = snd (stop_recording fault m)"
| "apply_op KeyUp m = key_up m"
| "apply_op KeyDown m = key_down m"

definition run :: "op list \<Rightarrow> ChatManager \<Rightarrow> ChatManager" where
  "run ops m = fold apply_op ops m"

text \<open>
  The transcript entries that the body of the \<^verbatim>\<open>try\<close> appends: the reply, when the
  generation call returns one.
\<close>

definition reply_turns :: "turn_env \<Rightarrow> string list" where
  "reply_turns env = (case chat_outcome env of Inl e \<Rightarrow> [] | Inr a \<Rightarrow> [assistant_turn a])"

definition with_reply :: "turn_env \<Rightarrow> string \<Rightarrow> ChatManager \<Rightarrow> ChatManager" where
  "with_reply env a m =
     notify_chat_updated (append_chat (assistant_turn a) (interleaved_stop (stop_during_chat env) m))"

text \<open>
  \<^verbatim>\<open>LlamaChat.chat\<close> (src/llama.py, lines 33-49), the engine that
  \<^verbatim>\<open>initialize_models\<close> installs: given what the completion call does, it returns the
  reply, or a fixed apology when the completion raises. The manager does not depend
  on this engine: \<^verbatim>\<open>process_voice_input\<close> handles a generation call that raises.
\<close>

definition llama_chat :: "exn + string \<Rightarrow> exn + string" where
  "llama_chat completion =
     (case completion of
        Inl e \<Rightarrow> Inr ''An error occurred during the conversation.''
      | Inr assistant_message \<Rightarrow> Inr assistant_message)"

text \<open>
  Runs in which no generation call raises; with \<open>llama_chat\<close> as the engine every run
  is of this kind.
\<close>

fun generation_ok :: "op \<Rightarrow> bool" where
  "generation_ok (ProcessVoiceInput env t) = (\<not> isl (chat_outcome env))"
| "generation_ok (RedoLastMessage env) = (\<not> isl (chat_outcome env))"
| "generation_ok other = True"

text \<open>Runs in which no generation call of a redo raises.\<close>

fun redo_generation_ok :: "op \<Rightarrow> bool" where
  "redo_generation_ok (RedoLastMessage env) = (\<not> isl (chat_outcome env))"
| "redo_generation_ok other = True"

text \<open>The bound that \<^verbatim>\<open>KEY_UP\<close> checks before it scrolls, as a property of a state.\<close>

definition scroll_in_bounds :: "ChatState \<Rightarrow> bool" where
  "scroll_in_bounds s =
     (0 \<le> scroll_offset s \<and> scroll_offset s \<le> 2 * int (length (chat_history s)))"





section \<open>Passive mode: waiting for speech and for silence (src/whisper.py, lines 128-195)\<close>

text \<open>
  \<^verbatim>\<open>passive_record_and_transcribe\<close> polls every \<^verbatim>\<open>check_interval\<close> seconds. What one
  poll sees is a tick: how many samples the stream callback has buffered so far, and
  the RMS of the most recent \<^verbatim>\<open>int(SAMPLE_RATE * check_interval)\<close> samples (read only
  when that many are buffered). The two \<^verbatim>\<open>while\<close> loops run over the ticks still to
  come; \<open>None\<close> says that the loop is still polling when the ticks end. The accumulated
  times 0.0, 0.5, ... and 0.3, 0.8, ... are modelled as reals; the comparisons with 3.0
  come out the same in binary floating point (2.8 and 3.0 differ by far more than the
  rounding of 0.3).
\<close>

record tick =
  buffered :: nat
  recent_rms :: real

definition SAMPLE_RATE :: nat where
  "SAMPLE_RATE = 16000"

definition silence_threshold :: real where
  "silence_threshold = 0.01"

definition silence_duration_required :: real where
  "silence_duration_required = 3.0"

definition check_interval :: real where
  "check_interval = 0.5"

definition window_samples :: nat where
  "window_samples = nat \<lfloor>real SAMPLE_RATE * check_interval\<rfloor>"

definition has_window :: "tick \<Rightarrow> bool" where
  "has_window t = (buffered t \<ge> window_samples)"

text \<open>Lines 160-167: wait for a window whose RMS exceeds the threshold.\<close>

fun await_onset :: "tick list \<Rightarrow> tick list option" where
  "await_onset [] = None"
| "await_onset (t # ts) =
     (if has_window t \<and> recent_rms t > silence_threshold then Some ts else await_onset ts)"

text \<open>
  Lines 172-178: one poll of the second loop updates the accumulated silence; lines
  170-180: the loop leaves at the first poll after which the accumulated silence
  reaches the required duration, here after how many polls.
\<close>

definition silence_step :: "real \<Rightarrow> tick \<Rightarrow> real" where
  "silence_step accumulated_silence_time t =
     (if has_window t
      then (if recent_rms t < silence_threshold
            then accumulated_silence_time + check_interval
            else 0.3)
      else accumulated_silence_time)"

fun await_silence :: "real \<Rightarrow> tick list \<Rightarrow> nat option" where
  "await_silence accumulated_silence_time [] = None"
| "await_silence accumulated_silence_time (t # ts) =
     (let acc = silence_step accumulated_silence_time t
      in if acc \<ge> silence_duration_required then Some 1
         else map_option Suc (await_silence acc ts))"

text \<open>
  The whole capture: the number of polls after which the buffer is handed to
  transcription.
\<close>

definition passive_capture :: "tick list \<Rightarrow> nat option" where
  "passive_capture ts =
     (case await_onset ts of
        None \<Rightarrow> None
      | Some rest \<Rightarrow> map_option (\<lambda>n. length ts - length rest + n) (await_silence 0.0 rest))"

text \<open>
  A window is sub-threshold when its RMS is below the threshold. \<open>silent_run\<close> is the
  number of consecutive sub-threshold windows at the end of the polls seen so far, and
  \<open>windows_required\<close> the number of windows that make up the required duration.
\<close>

definition sub_threshold :: "tick \<Rightarrow> bool" where
  "sub_threshold t = (recent_rms t < silence_threshold)"

definition silent_run :: "tick list \<Rightarrow> nat" where
  "silent_run ts = length (takeWhile sub_threshold (rev ts))"

definition windows_required :: nat where
  "windows_required = nat \<lceil>silence_duration_required / check_interval\<rceil>"

text \<open>
  The accumulated silence after a run of \<open>k\<close> sub-threshold windows: \<open>k\<close> intervals,
  counted from 0.0 at the start of the loop or from 0.3 after a louder window.
\<close>

definition tracks :: "real \<Rightarrow> nat \<Rightarrow> bool" where
  "tracks acc k = (acc = real k / 2 \<or> acc = 3 / 10 + real k / 2)"

section \<open>Concrete sessions\<close>

definition plain_settings :: chat_settings where
  "plain_settings =
     \<lparr> tts_voice = Some ''af_sky'', voice_1 = None, voice_2 = None, blend_ratio = None \<rparr>"

text \<open>A turn in which the generation call raises.\<close>

definition llm_raises :: "string \<Rightarrow> turn_env" where
  "llm_raises msg =
     \<lparr> chat_outcome = Inl (Exn msg), create_outcome = Inr (None, None),
       create_with_blend_outcome = Inr (None, None),
       stop_during_chat = False, stop_during_tts = False \<rparr>"

text \<open>A turn in which generation replies and synthesis returns \<^verbatim>\<open>(None, None)\<close>.\<close>

definition llm_replies :: "string \<Rightarrow> turn_env" where
  "llm_replies a =
     \<lparr> chat_outcome = Inr a, create_outcome = Inr (None, None),
       create_with_blend_outcome = Inr (None, None),
       stop_during_chat = False, stop_during_tts = False \<rparr>"

text \<open>
  A turn with \<open>llama_chat\<close> as the engine, given what the completion call does, and
  synthesis returning \<^verbatim>\<open>(None, None)\<close>.
\<close>

definition llama_turn :: "exn + string \<Rightarrow> turn_env" where
  "llama_turn completion =
     \<lparr> chat_outcome = llama_chat completion, create_outcome = Inr (None, None),
       create_with_blend_outcome = Inr (None, None),
       stop_during_chat = False, stop_during_tts = False \<rparr>"

definition fresh_session :: ChatManager where
  "fresh_session = start_chat_manager plain_settings"

text \<open>A session in which a turn is being processed.\<close>

definition busy_session :: ChatManager where
  "busy_session = set_processing True fresh_session"

text \<open>
  A session whose second turn failed in generation: the transcript ends with a user
  turn that has no reply.
\<close>

definition half_turn_session :: ChatManager where
  "half_turn_session =
     run [ProcessVoiceInput (llm_replies ''b'') ''a'', ProcessVoiceInput (llm_raises ''x'') ''c'']
       fresh_session"

text \<open>A session after one successful turn, scrolled up by four lines.\<close>

definition scrolled_session :: ChatManager where
  "scrolled_session =
     run [ProcessVoiceInput (llm_replies ''b'') ''a'', KeyUp, KeyUp, KeyUp, KeyUp] fresh_session"

text \<open>
  Two captures in progress: one whose samples lie within [-1, 1], one with a sample
  of magnitude 2.
\<close>

definition soft_capture :: ChatManager where
  "soft_capture = run [StartRecording (Opened 0 0), AudioCallback [1/2, -1/4]] fresh_session"

definition loud_capture :: ChatManager where
  "loud_capture = run [StartRecording (Opened 0 0), AudioCallback [2]] fresh_session"



text \<open>
  Polls of a passive capture: the buffer grows by one window per poll; speech at the
  second poll, a louder window at the fourth, then six sub-threshold windows.
\<close>

definition tick_at :: "nat \<Rightarrow> real \<Rightarrow> tick" where
  "tick_at i r = \<lparr> buffered = 8000 * i, recent_rms = r \<rparr>"

definition sample_polls :: "tick list" where
  "sample_polls =
     [tick_at 0 0, tick_at 1 0.2, tick_at 2 0.001, tick_at 3 0.05, tick_at 4 0.001,
      tick_at 5 0.002, tick_at 6 0.001, tick_at 7 0.003, tick_at 8 0.001, tick_at 9 0.001]"

text \<open>A poll whose window has exactly the threshold RMS.\<close>

definition loud_tick :: tick where
  "loud_tick = \<lparr> buffered = 8000, recent_rms = 0.01 \<rparr>"

section \<open>Basic facts about the field updates\<close>

lemma emit_simps [simp]:
  "state (emit e m) = state m"
  "settings (emit e m) = settings m"
  "on_chat_updated (emit e m) = on_chat_updated m"
  "trace (emit e m) = trace m @ [e]"
  by (simp_all add: emit_def)

lemma emit_all_simps [simp]:
  "state (emit_all es m) = state m"
  "settings (emit_all es m) = settings m"
  "on_chat_updated (emit_all es m) = on_chat_updated m"
  "trace (emit_all es m) = trace m @ es"
  by (simp_all add: emit_all_def)

lemma status_callback_simps [simp]:
  "state (status_callback msg m) = state m"
  "settings (status_callback msg m) = settings m"
  "on_chat_updated (status_callback msg m) = on_chat_updated m"
  "trace (status_callback msg m) = trace m @ [Status msg]"
  by (simp_all add: status_callback_def)

lemma notify_chat_updated_simps [simp]:
  "state (notify_chat_updated m) = state m"
  "settings (notify_chat_updated m) = settings m"
  "on_chat_updated (notify_chat_updated m) = on_chat_updated m"
  "trace (notify_chat_updated m) = trace m @ (if on_chat_updated m then [ChatUpdated] else [])"
  by (simp_all add: notify_chat_updated_def)

lemma set_processing_simps [simp]:
  "state (set_processing b m) = (state m)\<lparr> processing := b \<rparr>"
  "settings (set_processing b m) = settings m"
  "on_chat_updated (set_processing b m) = on_chat_updated m"
  "trace (set_processing b m) = trace m"
  by (simp_all add: set_processing_def)

lemma set_last_user_message_simps [simp]:
  "state (set_last_user_message u m) = (state m)\<lparr> last_user_message := Some u \<rparr>"
  "settings (set_last_user_message u m) = settings m"
  "on_chat_updated (set_last_user_message u m) = on_chat_updated m"
  "trace (set_last_user_message u m) = trace m"
  by (simp_all add: set_last_user_message_def)

lemma set_chat_history_simps [simp]:
  "state (set_chat_history h m) = (state m)\<lparr> chat_history := h \<rparr>"
  "settings (set_chat_history h m) = settings m"
  "on_chat_updated (set_chat_history h m) = on_chat_updated m"
  "trace (set_chat_history h m) = trace m"
  by (simp_all add: set_chat_history_def)

lemma append_chat_simps [simp]:
  "state (append_chat l m) = (state m)\<lparr> chat_history := chat_history (state m) @ [l] \<rparr>"
  "settings (append_chat l m) = settings m"
  "on_chat_updated (append_chat l m) = on_chat_updated m"
  "trace (append_chat l m) = trace m"
  by (simp_all add: append_chat_def)

lemma stop_processing_simps [simp]:
  "state (stop_processing m) = (state m)\<lparr> processing := False \<rparr>"
  "settings (stop_processing m) = settings m"
  "on_chat_updated (stop_processing m) = on_chat_updated m"
  "trace (stop_processing m) =
     trace m @ (if processing (state m) then [Status ''Processing stopped!''] else [])"
  by (simp_all add: stop_processing_def)

lemma interleaved_stop_simps [simp]:
  "state (interleaved_stop b m) = (state m)\<lparr> processing := processing (state m) \<and> \<not> b \<rparr>"
  "settings (interleaved_stop b m) = settings m"
  "on_chat_updated (interleaved_stop b m) = on_chat_updated m"
  "trace (interleaved_stop b m) =
     trace m @ (if b \<and> processing (state m) then [Status ''Processing stopped!''] else [])"
  by (simp_all add: interleaved_stop_def)

lemma accept_turn_simps [simp]:
  "state (accept_turn u m) =
     (state m)\<lparr> last_user_message := Some u,
                chat_history := chat_history (state m) @ [user_turn u],
                processing := True \<rparr>"
  "settings (accept_turn u m) = settings m"
  "on_chat_updated (accept_turn u m) = on_chat_updated m"
  "trace (accept_turn u m) =
     trace m @ (if on_chat_updated m then [ChatUpdated] else []) @ [Status ''Thinking...'']"
  by (simp_all add: accept_turn_def)

lemma llama_chat_returns [simp]: "\<not> isl (llama_chat completion)"
  by (cases completion) (simp_all add: llama_chat_def)

lemma playback_calls_append [simp]:
  "playback_calls (xs @ ys) = playback_calls xs + playback_calls ys"
  by (induction xs rule: playback_calls.induct) auto

lemma last_status_append [simp]:
  "last_status (xs @ ys) = (case last_status ys of None \<Rightarrow> last_status xs | Some l \<Rightarrow> Some l)"
  by (induction xs rule: last_status.induct) (auto split: option.splits)

lemma open_captures_append [simp]:
  "open_captures (xs @ ys) = open_captures xs + open_captures ys"
  by (induction xs rule: open_captures.induct) auto

lemma llm_replies_simps [simp]:
  "chat_outcome (llm_replies a) = Inr a"
  "synthesize (llm_replies a) st = Inr (None, None)"
  "stop_during_chat (llm_replies a) = False"
  "stop_during_tts (llm_replies a) = False"
  "reply_turns (llm_replies a) = [assistant_turn a]"
  by (simp_all add: llm_replies_def synthesize_def reply_turns_def)

lemma llm_raises_simps [simp]:
  "chat_outcome (llm_raises msg) = Inl (Exn msg)"
  "stop_during_chat (llm_raises msg) = False"
  "stop_during_tts (llm_raises msg) = False"
  "reply_turns (llm_raises msg) = []"
  by (simp_all add: llm_raises_def reply_turns_def)

section \<open>One turn: process_voice_input\<close>

lemma process_voice_input_empty [simp]: "process_voice_input env [] m = (False, m)"
  by (simp add: process_voice_input_def)

lemma state_process_voice_input:
  "t \<noteq> [] \<Longrightarrow> state (snd (process_voice_input env t m)) =
     (state m)\<lparr> last_user_message := Some t,
                chat_history := chat_history (state m) @ user_turn t # reply_turns env,
                processing := False \<rparr>"
  by (simp add: process_voice_input_def try_body_def synthesis_stage_def Let_def reply_turns_def
      split: sum.splits option.splits prod.splits)

lemma process_voice_input_returns:
  "fst (process_voice_input env t m) =
     (t \<noteq> [] \<and> \<not> isl (chat_outcome env)
      \<and> (stop_during_chat env \<or> \<not> isl (synthesize env (settings m))))"
  by (cases "chat_outcome env"; cases "synthesize env (settings m)")
     (auto simp: process_voice_input_def try_body_def synthesis_stage_def Let_def
       split: option.splits)

lemma synthesis_stage_no_audio:
  "synthesize env (settings m) = Inr (None, r) \<Longrightarrow>
   synthesis_stage env m =
     Inr (interleaved_stop (stop_during_tts env) (status_callback ''Synthesizing speech...'' m))"
  by (simp add: synthesis_stage_def Let_def)

lemma try_body_raises:
  "chat_outcome env = Inl e \<Longrightarrow>
   try_body env m = Inl (e, interleaved_stop (stop_during_chat env) m)"
  by (simp add: try_body_def)

lemma with_reply_simps [simp]:
  "state (with_reply env a m) =
     (state m)\<lparr> processing := processing (state m) \<and> \<not> stop_during_chat env,
                chat_history := chat_history (state m) @ [assistant_turn a] \<rparr>"
  "settings (with_reply env a m) = settings m"
  "on_chat_updated (with_reply env a m) = on_chat_updated m"
  "playback_calls (trace (with_reply env a m)) = playback_calls (trace m)"
  by (simp_all add: with_reply_def)

lemma try_body_no_audio:
  assumes "chat_outcome env = Inr a" and "synthesize env (settings m) = Inr (None, r)"
  shows "try_body env m =
     Inr (status_callback ''Ready to chat!''
       (set_processing False
          (if processing (state (with_reply env a m))
           then interleaved_stop (stop_during_tts env)
                  (status_callback ''Synthesizing speech...'' (with_reply env a m))
           else with_reply env a m)))"
  using assms
  by (simp add: try_body_def with_reply_def synthesis_stage_no_audio Let_def)


text \<open>
  C6. When the generation call raises in \<open>process_voice_input t\<close> (a non-empty \<open>t\<close>, so
  that the engine is called at all), the call returns \<open>False\<close>; the state afterwards
  is the state before with \<open>last_user_message = t\<close>, the user turn for \<open>t\<close> appended to
  the transcript and \<open>processing = False\<close>: the last entry is the user turn, no reply
  was appended and no earlier entry was removed. The error is the status shown.
\<close>

theorem generation_raises:
  assumes "t \<noteq> []" and "chat_outcome env = Inl e"
  shows "fst (process_voice_input env t m) = False
       \<and> state (snd (process_voice_input env t m)) =
           (state m)\<lparr> last_user_message := Some t,
                      chat_history := chat_history (state m) @ [user_turn t],
                      processing := False \<rparr>
       \<and> last (chat_history (state (snd (process_voice_input env t m)))) = user_turn t
       \<and> last_status (trace (snd (process_voice_input env t m))) =
           Some (''Error processing input: '' @ str e)"
  using assms
  by (simp add: process_voice_input_def try_body_raises)

theorem generation_raises_witness:
  "''hello'' \<noteq> [] \<and> chat_outcome (llm_raises ''no model'') = Inl (Exn ''no model'')
   \<and> fst (process_voice_input (llm_raises ''no model'') ''hello'' fresh_session) = False
   \<and> chat_history (state (snd (process_voice_input (llm_raises ''no model'') ''hello''
        fresh_session))) = [''You: hello'']
   \<and> processing (state (snd (process_voice_input (llm_raises ''no model'') ''hello''
        fresh_session))) = False"
proof -
  have h1: "''hello'' \<noteq> []" by simp
  have h2: "chat_outcome (llm_raises ''no model'') = Inl (Exn ''no model'')"
    by simp
  from generation_raises [OF h1 h2, of fresh_session] h2 show ?thesis
    by (simp add: fresh_session_def start_chat_manager_def new_manager_def initial_state_def
        user_turn_def)
qed

text \<open>
  C7. For a non-empty text, when generation replies \<open>a\<close> and the selected synthesis
  call returns \<^verbatim>\<open>(None, None)\<close>, \<open>process_voice_input\<close> returns \<open>True\<close>, appends the
  user turn and the assistant turn, makes no call of \<^verbatim>\<open>whisper.play_audio\<close>, ends with
  \<open>processing = False\<close>, and the last status reported is \<^verbatim>\<open>Ready to chat!\<close>.
\<close>

theorem synthesis_returns_none:
  assumes "t \<noteq> []" and "chat_outcome env = Inr a" and "synthesize env (settings m) = Inr (None, None)"
  shows "fst (process_voice_input env t m) = True
       \<and> state (snd (process_voice_input env t m)) =
           (state m)\<lparr> last_user_message := Some t,
                      chat_history := chat_history (state m) @ [user_turn t, assistant_turn a],
                      processing := False \<rparr>
       \<and> playback_calls (trace (snd (process_voice_input env t m))) = playback_calls (trace m)
       \<and> last_status (trace (snd (process_voice_input env t m))) = Some ''Ready to chat!''"
proof -
  have syn: "synthesize env (settings (accept_turn t m)) = Inr (None, None)"
    using assms(3) by simp
  note tb = try_body_no_audio [OF assms(2) syn]
  have 1: "fst (process_voice_input env t m) = True"
    using assms(1) by (simp add: process_voice_input_def tb)
  have 2: "state (snd (process_voice_input env t m)) =
           (state m)\<lparr> last_user_message := Some t,
                      chat_history := chat_history (state m) @ [user_turn t, assistant_turn a],
                      processing := False \<rparr>"
    using assms(1,2) by (simp add: state_process_voice_input reply_turns_def)
  have 3: "playback_calls (trace (snd (process_voice_input env t m))) = playback_calls (trace m)"
    using assms(1) by (simp add: process_voice_input_def tb)
  have 4: "last_status (trace (snd (process_voice_input env t m))) = Some ''Ready to chat!''"
    using assms(1) by (simp add: process_voice_input_def tb)
  from 1 2 3 4 show ?thesis by blast
qed

theorem synthesis_returns_none_witness:
  "''hello'' \<noteq> [] \<and> chat_outcome (llm_replies ''hi there'') = Inr ''hi there''
   \<and> synthesize (llm_replies ''hi there'') (settings fresh_session) = Inr (None, None)
   \<and> fst (process_voice_input (llm_replies ''hi there'') ''hello'' fresh_session) = True
   \<and> chat_history (state (snd (process_voice_input (llm_replies ''hi there'') ''hello''
        fresh_session))) = [''You: hello'', ''Assistant: hi there'']
   \<and> playback_calls (trace (snd (process_voice_input (llm_replies ''hi there'') ''hello''
        fresh_session))) = 0"
proof -
  have h1: "''hello'' \<noteq> []" by simp
  have h2: "chat_outcome (llm_replies ''hi there'') = Inr ''hi there''"
    by simp
  have h3: "synthesize (llm_replies ''hi there'') (settings fresh_session) = Inr (None, None)"
    by simp
  from synthesis_returns_none [OF h1 h2 h3] h2 h3 show ?thesis
    by (simp add: fresh_session_def start_chat_manager_def new_manager_def initial_state_def
        user_turn_def assistant_turn_def)
qed

section \<open>Redo, clear and mode switch\<close>

lemma redo_enabled:
  "last_user_message (state m) = Some u \<Longrightarrow> u \<noteq> [] \<Longrightarrow> \<not> processing (state m) \<Longrightarrow>
   redo_last_message env m =
     process_voice_input env u
       (notify_chat_updated (set_chat_history (drop_last_exchange (chat_history (state m))) m))"
  by (simp add: redo_last_message_def)

lemma state_redo_last_message:
  "state (snd (redo_last_message env m)) =
     (case last_user_message (state m) of
        None \<Rightarrow> state m
      | Some u \<Rightarrow>
          if u = [] \<or> processing (state m) then state m
          else (state m)\<lparr> chat_history :=
                   drop_last_exchange (chat_history (state m)) @ user_turn u # reply_turns env \<rparr>)"
  by (simp add: redo_last_message_def state_process_voice_input split: option.splits)

lemma drop_last_exchange_pair [simp]: "drop_last_exchange (h @ [x, y]) = h"
  by (simp add: drop_last_exchange_def)

lemma drop_last_exchange_single [simp]: "drop_last_exchange [x] = []"
  by (simp add: drop_last_exchange_def)

lemma length_drop_last_exchange:
  "length (drop_last_exchange h) = (if length h \<ge> 2 then length h - 2 else 0)"
  by (simp add: drop_last_exchange_def)

lemma state_clear_history [simp]:
  "state (clear_history m) = (state m)\<lparr> chat_history := [], scroll_offset := 0 \<rparr>"
  by (simp add: clear_history_def)

lemma state_toggle_ptt_mode [simp]:
  "state (toggle_ptt_mode m) = (state m)\<lparr> is_ptt_mode := \<not> is_ptt_mode (state m) \<rparr>"
  by (simp add: toggle_ptt_mode_def Let_def)

text \<open>
  C10. For a non-empty input \<open>t\<close>, \<open>last_user_message\<close> is \<open>t\<close> in the manager that
  enters the body of the \<^verbatim>\<open>try\<close> (lines 94-99 have run, generation has not), and it is
  still \<open>t\<close> when \<open>process_voice_input\<close> has returned, whatever generation, synthesis
  and playback did. \<open>processing\<close> is then \<open>False\<close>, so a following
  \<open>redo_last_message\<close> passes its guard: it is the resubmission of \<open>t\<close> on the
  truncated transcript.
\<close>

theorem last_user_message_kept:
  assumes "t \<noteq> []"
  shows "last_user_message (state (accept_turn t m)) = Some t
       \<and> last_user_message (state (snd (process_voice_input env t m))) = Some t
       \<and> processing (state (snd (process_voice_input env t m))) = False
       \<and> redo_last_message env' (snd (process_voice_input env t m)) =
           process_voice_input env' t
             (notify_chat_updated
                (set_chat_history
                   (drop_last_exchange (chat_history (state (snd (process_voice_input env t m)))))
                   (snd (process_voice_input env t m))))"
proof -
  have s: "state (snd (process_voice_input env t m)) =
     (state m)\<lparr> last_user_message := Some t,
                chat_history := chat_history (state m) @ user_turn t # reply_turns env,
                processing := False \<rparr>"
    using assms by (rule state_process_voice_input)
  have 1: "last_user_message (state (snd (process_voice_input env t m))) = Some t"
    by (simp add: s)
  have 2: "\<not> processing (state (snd (process_voice_input env t m)))"
    by (simp add: s)
  from redo_enabled [OF 1 assms 2] 1 2 show ?thesis by simp
qed

theorem last_user_message_kept_witness:
  "''hello'' \<noteq> []
   \<and> last_user_message (state (snd (process_voice_input (llm_raises ''no model'') ''hello''
        fresh_session))) = Some ''hello''
   \<and> fst (redo_last_message (llm_replies ''hi'')
        (snd (process_voice_input (llm_raises ''no model'') ''hello'' fresh_session))) = True"
proof -
  have h: "''hello'' \<noteq> []" by simp
  note k = last_user_message_kept [OF h, of fresh_session "llm_raises ''no model''"
      "llm_replies ''hi''"]
  from k have w1: "last_user_message (state (snd (process_voice_input (llm_raises ''no model'')
      ''hello'' fresh_session))) = Some ''hello''"
    by blast
  from k have "redo_last_message (llm_replies ''hi'')
        (snd (process_voice_input (llm_raises ''no model'') ''hello'' fresh_session)) =
      process_voice_input (llm_replies ''hi'') ''hello''
             (notify_chat_updated
                (set_chat_history
                   (drop_last_exchange (chat_history (state (snd (process_voice_input
                      (llm_raises ''no model'') ''hello'' fresh_session)))))
                   (snd (process_voice_input (llm_raises ''no model'') ''hello'' fresh_session))))"
    by blast
  then have w2: "fst (redo_last_message (llm_replies ''hi'')
        (snd (process_voice_input (llm_raises ''no model'') ''hello'' fresh_session))) = True"
    by (simp add: process_voice_input_returns)
  from h w1 w2 show ?thesis by blast
qed

lemma half_turn_state:
  "state half_turn_session =
     initial_state\<lparr> chat_history := [''You: a'', ''Assistant: b'', ''You: c''],
                    last_user_message := Some ''c'' \<rparr>"
  by (simp add: half_turn_session_def run_def state_process_voice_input
      fresh_session_def start_chat_manager_def new_manager_def
      initial_state_def user_turn_def assistant_turn_def)

text \<open>
  C1, at a transcript that ends with a user turn without reply. The session has the
  transcript \<^verbatim>\<open>You: a\<close>, \<^verbatim>\<open>Assistant: b\<close>, \<^verbatim>\<open>You: c\<close>, the last generation having
  raised. \<open>redo_last_message\<close> drops the last two entries, the reply \<^verbatim>\<open>Assistant: b\<close> of
  the turn before with them, and resubmits \<^verbatim>\<open>c\<close>: the transcript becomes \<^verbatim>\<open>You: a\<close>,
  \<^verbatim>\<open>You: c\<close>, \<^verbatim>\<open>Assistant: d\<close>.
\<close>

theorem redo_drops_earlier_reply:
  "chat_history (state half_turn_session) = [''You: a'', ''Assistant: b'', ''You: c'']
   \<and> last_user_message (state half_turn_session) = Some ''c''
   \<and> processing (state half_turn_session) = False
   \<and> drop_last_exchange (chat_history (state half_turn_session)) = [''You: a'']
   \<and> fst (redo_last_message (llm_replies ''d'') half_turn_session) = True
   \<and> chat_history (state (snd (redo_last_message (llm_replies ''d'') half_turn_session))) =
       [''You: a'', ''You: c'', ''Assistant: d'']"
proof -
  have l: "last_user_message (state half_turn_session) = Some ''c''"
    by (simp add: half_turn_state)
  have p: "\<not> processing (state half_turn_session)"
    by (simp add: half_turn_state initial_state_def)
  have c: "''c'' \<noteq> []" by simp
  have d: "drop_last_exchange (chat_history (state half_turn_session)) = [''You: a'']"
    by (simp add: half_turn_state drop_last_exchange_def)
  note r = redo_enabled [OF l c p, of "llm_replies ''d''"]
  have f: "fst (redo_last_message (llm_replies ''d'') half_turn_session) = True"
    by (simp add: r process_voice_input_returns)
  have h: "chat_history (state (snd (redo_last_message (llm_replies ''d'') half_turn_session))) =
       [''You: a'', ''You: c'', ''Assistant: d'']"
    by (simp add: r d state_process_voice_input user_turn_def assistant_turn_def)
  from l p d f h show ?thesis by (simp add: half_turn_state)
qed

text \<open>
  C3, as the code has it. \<open>toggle_ptt_mode\<close> flips \<open>is_ptt_mode\<close> in every state,
  whether a turn is processing or a capture is active or not, changes nothing else
  in the state, and reports the new mode as status.
\<close>

theorem toggle_ptt_mode_flips:
  "state (toggle_ptt_mode m) = (state m)\<lparr> is_ptt_mode := \<not> is_ptt_mode (state m) \<rparr>
   \<and> trace (toggle_ptt_mode m) =
       trace m @ [Status (if is_ptt_mode (state m) then ''Switched to Passive mode''
                          else ''Switched to Push-to-Talk mode'')]"
  by (simp add: toggle_ptt_mode_def Let_def)

lemma state_soft_capture:
  "state soft_capture =
     initial_state\<lparr> recording_stream := Some 0, recording_frames := Some [[1/2, -1/4]],
                    recording_pyaudio := Some 0, sample_rate := Some 16000 \<rparr>"
  by (simp add: soft_capture_def run_def fresh_session_def start_chat_manager_def
      new_manager_def initial_state_def start_recording_def record_audio_def
      audio_callback_def)

lemma state_loud_capture:
  "state loud_capture =
     initial_state\<lparr> recording_stream := Some 0, recording_frames := Some [[2]],
                    recording_pyaudio := Some 0, sample_rate := Some 16000 \<rparr>"
  by (simp add: loud_capture_def run_def fresh_session_def start_chat_manager_def
      new_manager_def initial_state_def start_recording_def record_audio_def
      audio_callback_def)

text \<open>
  C3 fails as stated: with \<open>processing\<close> set, and likewise with a capture active, the
  toggle switches from push-to-talk to passive mode.
\<close>

theorem toggle_while_busy_counterexample:
  "processing (state busy_session)
   \<and> is_ptt_mode (state busy_session)
   \<and> \<not> is_ptt_mode (state (toggle_ptt_mode busy_session))
   \<and> recording_stream (state soft_capture) = Some 0
   \<and> is_ptt_mode (state soft_capture)
   \<and> \<not> is_ptt_mode (state (toggle_ptt_mode soft_capture))"
  by (simp add: busy_session_def fresh_session_def start_chat_manager_def new_manager_def
      initial_state_def state_soft_capture)

section \<open>Invariants of runs\<close>

lemma view_start_recording [simp]:
  "chat_history (state (snd (start_recording dev m))) = chat_history (state m)"
  "scroll_offset (state (snd (start_recording dev m))) = scroll_offset (state m)"
  by (simp_all add: start_recording_def record_audio_def split: open_outcome.splits)

lemma view_audio_callback [simp]:
  "chat_history (state (audio_callback a m)) = chat_history (state m)"
  "scroll_offset (state (audio_callback a m)) = scroll_offset (state m)"
  by (simp_all add: audio_callback_def split: option.splits)

lemma state_stop_recording:
  "state (snd (stop_recording fault m)) =
     (case recording_stream (state m) of
        None \<Rightarrow> state m
      | Some s \<Rightarrow> (state m)\<lparr> recording_stream := None, recording_frames := None,
                      recording_pyaudio := None, sample_rate := None \<rparr>)"
  by (simp add: stop_recording_def Let_def split: option.splits prod.splits)

lemma view_stop_recording [simp]:
  "chat_history (state (snd (stop_recording fault m))) = chat_history (state m)"
  "scroll_offset (state (snd (stop_recording fault m))) = scroll_offset (state m)"
  by (simp_all add: state_stop_recording split: option.splits)

lemma view_key_up [simp]:
  "chat_history (state (key_up m)) = chat_history (state m)"
  "chat_history (state (key_down m)) = chat_history (state m)"
  by (simp_all add: key_up_def key_down_def)

lemma reply_turns_ok: "\<not> isl (chat_outcome env) \<Longrightarrow> length (reply_turns env) = 1"
  by (cases "chat_outcome env") (simp_all add: reply_turns_def)

lemma history_length_process_voice_input:
  "\<not> isl (chat_outcome env) \<Longrightarrow>
   length (chat_history (state (snd (process_voice_input env t m)))) =
     length (chat_history (state m)) + (if t = [] then 0 else 2)"
  by (cases "t = []") (simp_all add: state_process_voice_input reply_turns_ok)

lemma history_length_redo:
  "\<not> isl (chat_outcome env) \<Longrightarrow>
   length (chat_history (state (snd (redo_last_message env m)))) =
     (if last_user_message (state m) \<in> {None, Some []} \<or> processing (state m)
      then length (chat_history (state m))
      else length (drop_last_exchange (chat_history (state m))) + 2)"
  by (simp add: state_redo_last_message reply_turns_ok split: option.splits)

lemma even_step:
  assumes "generation_ok op" and "even (length (chat_history (state m)))"
  shows "even (length (chat_history (state (apply_op op m))))"
proof (cases op)
  case (ProcessVoiceInput env t)
  then show ?thesis using assms by (simp add: history_length_process_voice_input)
next
  case (RedoLastMessage env)
  then show ?thesis using assms
    by (simp add: history_length_redo length_drop_last_exchange)
qed (use assms in simp_all)

lemma even_run:
  "list_all generation_ok ops \<Longrightarrow> even (length (chat_history (state m))) \<Longrightarrow>
   even (length (chat_history (state (run ops m))))"
  unfolding run_def
  by (induction ops arbitrary: m) (simp_all add: even_step)

lemma scroll_step:
  assumes "redo_generation_ok op" and "scroll_in_bounds (state m)"
  shows "scroll_in_bounds (state (apply_op op m))"
proof (cases op)
  case (ProcessVoiceInput env t)
  then show ?thesis using assms
    by (cases "t = []") (simp_all add: scroll_in_bounds_def state_process_voice_input)
next
  case (RedoLastMessage env)
  then show ?thesis using assms
    by (auto simp: scroll_in_bounds_def state_redo_last_message reply_turns_ok
        length_drop_last_exchange split: option.splits)
next
  case KeyUp
  then show ?thesis using assms by (simp add: scroll_in_bounds_def key_up_def)
next
  case KeyDown
  then show ?thesis using assms by (simp add: scroll_in_bounds_def key_down_def)
qed (use assms in \<open>simp_all add: scroll_in_bounds_def\<close>)

lemma scroll_run:
  "list_all redo_generation_ok ops \<Longrightarrow> scroll_in_bounds (state m) \<Longrightarrow>
   scroll_in_bounds (state (run ops m))"
  unfolding run_def
  by (induction ops arbitrary: m) (simp_all add: scroll_step)

text \<open>
  C4, as the code has it. In every state reached from the start of a chat by
  operations in which no generation call raises, the length of the transcript is
  even.
\<close>

theorem transcript_even_when_generation_succeeds:
  assumes "list_all generation_ok ops"
  shows "even (length (chat_history (state (run ops (start_chat_manager st)))))"
  using assms
  by (rule even_run) (simp add: start_chat_manager_def new_manager_def initial_state_def)

theorem transcript_even_when_generation_succeeds_witness:
  "list_all generation_ok
     [ProcessVoiceInput (llama_turn (Inl (Exn ''oom''))) ''a'',
      RedoLastMessage (llm_replies ''d''), KeyUp]
   \<and> even (length (chat_history (state
        (run [ProcessVoiceInput (llama_turn (Inl (Exn ''oom''))) ''a'',
              RedoLastMessage (llm_replies ''d''), KeyUp] fresh_session))))"
proof -
  have h: "list_all generation_ok
     [ProcessVoiceInput (llama_turn (Inl (Exn ''oom''))) ''a'',
      RedoLastMessage (llm_replies ''d''), KeyUp]"
    by (simp add: llama_turn_def)
  from transcript_even_when_generation_succeeds [OF h, of plain_settings] h
  show ?thesis by (simp only: fresh_session_def simp_thms)
qed

text \<open>
  C4 fails as stated: after a first turn whose generation call raises,
  \<open>process_voice_input\<close> has returned and the transcript holds the user turn alone.
\<close>

theorem failed_generation_odd_counterexample:
  "\<not> even (length (chat_history (state
      (run [ProcessVoiceInput (llm_raises ''no model'') ''hello''] fresh_session))))"
  by (simp add: run_def state_process_voice_input fresh_session_def start_chat_manager_def
      new_manager_def initial_state_def)

text \<open>
  The scroll bound is kept by every operation but a redo whose generation call
  raises: in every state reached from the start of a chat by operations among which
  no such redo occurs, \<open>scroll_offset\<close> is at least 0 and at most twice the length of
  the transcript.
\<close>

lemma scroll_bound_without_raising_redo:
  assumes "list_all redo_generation_ok ops"
  shows "scroll_in_bounds (state (run ops (start_chat_manager st)))"
  using assms
  by (rule scroll_run)
     (simp add: scroll_in_bounds_def start_chat_manager_def new_manager_def initial_state_def)

lemma state_scrolled_session:
  "state scrolled_session =
     initial_state\<lparr> chat_history := [''You: a'', ''Assistant: b''],
                    last_user_message := Some ''a'', scroll_offset := 4 \<rparr>"
  by (simp add: scrolled_session_def run_def key_up_def state_process_voice_input
      fresh_session_def start_chat_manager_def new_manager_def initial_state_def
      user_turn_def assistant_turn_def)

text \<open>
  C5, at a redo after scrolling. After one turn the transcript has two entries and
  the view is scrolled up to offset 4, the bound. \<open>redo_last_message\<close> truncates the
  transcript and leaves \<open>scroll_offset\<close> as it is (\<open>clear_history\<close> resets it when it
  truncates): the transcript listener is notified with offset 4 on an empty
  transcript, whatever the engine does, and when the generation call of the
  resubmission raises, the redo returns with one entry and offset 4, above the
  bound 2.
\<close>

theorem redo_leaves_scroll_out_of_bounds:
  "chat_history (state scrolled_session) = [''You: a'', ''Assistant: b'']
   \<and> scroll_offset (state scrolled_session) = 4
   \<and> scroll_in_bounds (state scrolled_session)
   \<and> \<not> scroll_in_bounds (state (notify_chat_updated
          (set_chat_history (drop_last_exchange (chat_history (state scrolled_session)))
             scrolled_session)))
   \<and> chat_history (state (snd (redo_last_message (llm_raises ''no model'') scrolled_session))) =
       [''You: a'']
   \<and> scroll_offset (state (snd (redo_last_message (llm_raises ''no model'') scrolled_session))) = 4
   \<and> \<not> scroll_in_bounds
         (state (snd (redo_last_message (llm_raises ''no model'') scrolled_session)))"
  by (simp add: state_scrolled_session state_redo_last_message drop_last_exchange_def
      scroll_in_bounds_def initial_state_def user_turn_def)

section \<open>Recording\<close>



lemma recording_process_voice_input [simp]:
  "recording_stream (state (snd (process_voice_input env t m))) = recording_stream (state m)"
  "recording_pyaudio (state (snd (process_voice_input env t m))) = recording_pyaudio (state m)"
  by (cases "t = []"; simp add: state_process_voice_input)+





lemma stream_stop_recording [simp]:
  "recording_stream (state (snd (stop_recording fault m))) = None"
  by (simp add: state_stop_recording split: option.splits)


















lemma stop_recording_idle:
  "recording_stream (state m) = None \<Longrightarrow> stop_recording fault m = (None, m)"
  by (simp add: stop_recording_def)

lemma length_normalize_audio [simp]: "length (normalize_audio a) = length a"
  by (simp add: normalize_audio_def Let_def)

lemma normalize_audio_Nil [simp]: "normalize_audio a = [] \<longleftrightarrow> a = []"
  using length_normalize_audio [of a] by (metis length_0_conv)

lemma normalize_audio_in_range:
  assumes "a \<noteq> []" and "\<forall>x\<in>set a. \<bar>x\<bar> \<le> 1"
  shows "normalize_audio a = a"
proof -
  have "Max (set (map abs a)) \<le> 1"
    using assms by (subst Max_le_iff) auto
  then show ?thesis by (simp add: normalize_audio_def Let_def)
qed

lemma whisper_stop_recording_clean:
  "whisper_stop_recording NoFault (Some s) (Some fs) (Some p) =
     (if concat fs = [] then None else Some (normalize_audio (concat fs)),
      [StreamStop s, StreamClose s, Terminate p])"
  by (auto simp: whisper_stop_recording_def close_events_def)

lemma whisper_stop_recording_fault:
  "fault \<noteq> NoFault \<Longrightarrow> fst (whisper_stop_recording fault stream frames p) = None"
  by (simp add: whisper_stop_recording_def split: option.splits)

lemma stop_recording_fault:
  assumes "fault \<noteq> NoFault"
  shows "fst (stop_recording fault m) = None"
proof (cases "recording_stream (state m)")
  case None
  then show ?thesis by (simp add: stop_recording_def)
next
  case (Some s)
  obtain a es where w: "whisper_stop_recording fault (Some s) (recording_frames (state m))
      (recording_pyaudio (state m)) = (a, es)"
    by (cases "whisper_stop_recording fault (Some s) (recording_frames (state m))
      (recording_pyaudio (state m))")
  have "a = None"
    using whisper_stop_recording_fault [OF assms, of "Some s" "recording_frames (state m)"
        "recording_pyaudio (state m)"] w by simp
  with Some w show ?thesis by (simp add: stop_recording_def Let_def)
qed

lemma stop_recording_clean:
  assumes "recording_stream (state m) = Some s" and "recording_pyaudio (state m) = Some p"
    and "recording_frames (state m) = Some fs"
  shows "fst (stop_recording NoFault m) =
           (if concat fs = [] then None
            else Some (normalize_audio (concat fs), sample_rate (state m)))"
  using assms by (simp add: stop_recording_def whisper_stop_recording_clean Let_def)

lemma trace_stop_recording_clean:
  assumes "recording_stream (state m) = Some s" and "recording_pyaudio (state m) = Some p"
  shows "trace (snd (stop_recording NoFault m)) =
           trace m @ [Status ''Processing audio...'', StreamStop s, StreamClose s, Terminate p]"
  using assms
  by (simp add: stop_recording_def whisper_stop_recording_def close_events_def Let_def
      split: option.splits)

lemma start_after_stop:
  assumes "recording_stream (state m) = Some s" and "\<not> processing (state m)"
  shows "fst (start_recording (Opened s' p') (snd (stop_recording fault m))) = True"
  using assms by (simp add: start_recording_def record_audio_def state_stop_recording)

text \<open>
  C9, as the code has it. Without an active capture \<open>stop_recording\<close> returns \<open>None\<close>
  and changes nothing. With one, it clears the four capture fields whatever the
  device and the frames do, so that \<open>start_recording\<close> is accepted again when no turn
  is processing; it returns \<open>None\<close> when a device call raises; and when none raises,
  it stops and closes the stream, terminates PyAudio, and returns \<open>None\<close> if no sample
  was captured, else the joined frames, divided by their peak when the peak exceeds
  1 and unchanged when all samples lie within [-1, 1], with the sample rate.
\<close>

theorem stop_recording_behaviour:
  "(recording_stream (state m) = None \<longrightarrow> stop_recording fault m = (None, m))
   \<and> (recording_stream (state m) = Some s \<longrightarrow>
        state (snd (stop_recording fault m)) =
          (state m)\<lparr> recording_stream := None, recording_frames := None,
                     recording_pyaudio := None, sample_rate := None \<rparr>
        \<and> (\<not> processing (state m) \<longrightarrow>
             fst (start_recording (Opened s' p') (snd (stop_recording fault m))) = True)
        \<and> (fault \<noteq> NoFault \<longrightarrow> fst (stop_recording fault m) = None)
        \<and> (recording_pyaudio (state m) = Some p \<longrightarrow>
             trace (snd (stop_recording NoFault m)) =
               trace m @ [Status ''Processing audio...'', StreamStop s, StreamClose s, Terminate p]
             \<and> (recording_frames (state m) = Some fs \<longrightarrow>
                  fst (stop_recording NoFault m) =
                    (if concat fs = [] then None
                     else Some (normalize_audio (concat fs), sample_rate (state m)))
                  \<and> (concat fs \<noteq> [] \<and> (\<forall>x\<in>set (concat fs). \<bar>x\<bar> \<le> 1) \<longrightarrow>
                       fst (stop_recording NoFault m) =
                         Some (concat fs, sample_rate (state m))))))"
proof -
  have 1: "recording_stream (state m) = None \<longrightarrow> stop_recording fault m = (None, m)"
    using stop_recording_idle by blast
  have 2: "state (snd (stop_recording fault m)) =
          (state m)\<lparr> recording_stream := None, recording_frames := None,
                     recording_pyaudio := None, sample_rate := None \<rparr>"
    if "recording_stream (state m) = Some s"
    using that by (simp add: state_stop_recording)
  have 3: "fst (stop_recording NoFault m) = Some (concat fs, sample_rate (state m))"
    if "recording_stream (state m) = Some s" "recording_pyaudio (state m) = Some p"
      "recording_frames (state m) = Some fs" "concat fs \<noteq> []" "\<forall>x\<in>set (concat fs). \<bar>x\<bar> \<le> 1"
    using stop_recording_clean [OF that(1,2,3)] normalize_audio_in_range [OF that(4,5)] that(4)
    by simp
  show ?thesis
    using 1 2 3 start_after_stop stop_recording_fault trace_stop_recording_clean
      stop_recording_clean
    by blast
qed

theorem stop_recording_behaviour_witness:
  "recording_stream (state soft_capture) = Some 0
   \<and> recording_frames (state soft_capture) = Some [[1/2, -1/4]]
   \<and> fst (stop_recording NoFault soft_capture) = Some ([1/2, -1/4], Some 16000)
   \<and> recording_stream (state (snd (stop_recording NoFault soft_capture))) = None
   \<and> stop_recording NoFault fresh_session = (None, fresh_session)"
proof -
  have s: "recording_stream (state soft_capture) = Some 0"
    and p: "recording_pyaudio (state soft_capture) = Some 0"
    and f: "recording_frames (state soft_capture) = Some [[1/2, -1/4]]"
    and r: "sample_rate (state soft_capture) = Some 16000"
    by (simp_all add: state_soft_capture)
  have q: "concat [[1/2, -1/4 :: real]] \<noteq> [] \<and> (\<forall>x\<in>set (concat [[1/2, -1/4 :: real]]). \<bar>x\<bar> \<le> 1)"
    by simp
  have i: "recording_stream (state fresh_session) = None"
    by (simp add: fresh_session_def start_chat_manager_def new_manager_def initial_state_def)
  note b = stop_recording_behaviour [of _ NoFault 0 0 0 0 "[[1/2, -1/4]]"]
  from b [of soft_capture] s p f q
  have w1: "fst (stop_recording NoFault soft_capture) =
      Some (concat [[1/2, -1/4]], sample_rate (state soft_capture))"
    by blast
  from b [of soft_capture] s
  have w2: "state (snd (stop_recording NoFault soft_capture)) =
          (state soft_capture)\<lparr> recording_stream := None, recording_frames := None,
                     recording_pyaudio := None, sample_rate := None \<rparr>"
    by blast
  from b [of fresh_session] i
  have w3: "stop_recording NoFault fresh_session = (None, fresh_session)" by blast
  from s f w1 w2 w3 r show ?thesis by simp
qed

text \<open>
  C9 fails as stated: a capture holding one sample of value 2 is returned as the
  sample 1, not as the buffer that was accumulated.
\<close>

theorem loud_capture_rescaled_counterexample:
  "recording_frames (state loud_capture) = Some [[2]]
   \<and> fst (stop_recording NoFault loud_capture) = Some ([1], Some 16000)"
  by (simp add: stop_recording_clean [where s = 0 and p = 0 and fs = "[[2]]"]
      state_loud_capture initial_state_def normalize_audio_def)

section \<open>Passive mode\<close>

lemma window_samples_eq: "window_samples = 8000"
  by (simp add: window_samples_def SAMPLE_RATE_def check_interval_def)

lemma windows_required_eq: "windows_required = 6"
  by (simp add: windows_required_def silence_duration_required_def check_interval_def)

lemma silent_run_snoc:
  "silent_run (ts @ [t]) = (if sub_threshold t then Suc (silent_run ts) else 0)"
  by (simp add: silent_run_def)

lemma silent_run_Nil [simp]: "silent_run [] = 0"
  by (simp add: silent_run_def)

lemma tracks_threshold:
  "tracks acc k \<Longrightarrow> (acc \<ge> silence_duration_required) = (k \<ge> 6)"
  by (auto simp: tracks_def silence_duration_required_def)

lemma tracks_step:
  assumes "tracks acc k" and "has_window t"
  shows "tracks (silence_step acc t) (if sub_threshold t then Suc k else 0)"
  using assms
  by (auto simp: tracks_def silence_step_def sub_threshold_def check_interval_def field_simps)

lemma await_silence_char:
  assumes "list_all has_window ts" and "tracks acc (silent_run p)" and "silent_run p < 6"
  shows "await_silence acc ts = Some n \<longleftrightarrow>
           n \<le> length ts \<and> silent_run (p @ take n ts) \<ge> 6
           \<and> (\<forall>j<n. silent_run (p @ take j ts) < 6)"
  using assms
proof (induction ts arbitrary: acc p n)
  case Nil
  then show ?case by auto
next
  case (Cons t ts)
  let ?acc = "silence_step acc t"
  have tr: "tracks ?acc (silent_run (p @ [t]))"
    using tracks_step [of acc "silent_run p" t] Cons.prems by (simp add: silent_run_snoc)
  show ?case
  proof (cases "silent_run (p @ [t]) \<ge> 6")
    case True
    then have stop: "await_silence acc (t # ts) = Some 1"
      using tracks_threshold [OF tr] by simp
    have "n = 1" if "n \<le> length (t # ts)" "silent_run (p @ take n (t # ts)) \<ge> 6"
      "\<forall>j<n. silent_run (p @ take j (t # ts)) < 6"
    proof (rule ccontr)
      assume "n \<noteq> 1"
      show False
      proof (cases n)
        case 0
        with that(2) Cons.prems(3) show False by simp
      next
        case (Suc n')
        with \<open>n \<noteq> 1\<close> have "1 < n" by simp
        with that(3) have "silent_run (p @ take 1 (t # ts)) < 6" by blast
        with True show False by simp
      qed
    qed
    moreover have "\<forall>j<1. silent_run (p @ take j (t # ts)) < 6"
      using Cons.prems(3) by simp
    ultimately show ?thesis using stop True by auto
  next
    case False
    then have small: "silent_run (p @ [t]) < 6" by simp
    have go: "await_silence acc (t # ts) = map_option Suc (await_silence ?acc ts)"
      using tracks_threshold [OF tr] False by simp
    have IH: "await_silence ?acc ts = Some n' \<longleftrightarrow>
           n' \<le> length ts \<and> silent_run ((p @ [t]) @ take n' ts) \<ge> 6
           \<and> (\<forall>j<n'. silent_run ((p @ [t]) @ take j ts) < 6)" for n'
      using Cons.IH [of ?acc "p @ [t]" n'] Cons.prems(1) tr small by simp
    show ?thesis
    proof (cases n)
      case 0
      then show ?thesis using go Cons.prems(3) by auto
    next
      case (Suc n')
      have all: "(\<forall>j<Suc n'. silent_run (p @ take j (t # ts)) < 6) \<longleftrightarrow>
                 (\<forall>j<n'. silent_run ((p @ [t]) @ take j ts) < 6)"
      proof
        assume a: "\<forall>j<Suc n'. silent_run (p @ take j (t # ts)) < 6"
        show "\<forall>j<n'. silent_run ((p @ [t]) @ take j ts) < 6"
        proof (intro allI impI)
          fix j assume "j < n'"
          then have "Suc j < Suc n'" by simp
          with a have "silent_run (p @ take (Suc j) (t # ts)) < 6" by blast
          then show "silent_run ((p @ [t]) @ take j ts) < 6" by simp
        qed
      next
        assume a: "\<forall>j<n'. silent_run ((p @ [t]) @ take j ts) < 6"
        show "\<forall>j<Suc n'. silent_run (p @ take j (t # ts)) < 6"
        proof (intro allI impI)
          fix j assume j: "j < Suc n'"
          show "silent_run (p @ take j (t # ts)) < 6"
          proof (cases j)
            case 0
            then show ?thesis using Cons.prems(3) by simp
          next
            case (Suc j')
            with j have "j' < n'" by simp
            with a have "silent_run ((p @ [t]) @ take j' ts) < 6" by blast
            then show ?thesis using Suc by simp
          qed
        qed
      qed
      have "await_silence acc (t # ts) = Some n \<longleftrightarrow> await_silence ?acc ts = Some n'"
        using go Suc by auto
      also have "\<dots> \<longleftrightarrow> n' \<le> length ts \<and> silent_run ((p @ [t]) @ take n' ts) \<ge> 6
           \<and> (\<forall>j<n'. silent_run ((p @ [t]) @ take j ts) < 6)"
        by (rule IH)
      also have "\<dots> \<longleftrightarrow> n \<le> length (t # ts) \<and> silent_run (p @ take n (t # ts)) \<ge> 6
           \<and> (\<forall>j<n. silent_run (p @ take j (t # ts)) < 6)"
        using all Suc by simp
      finally show ?thesis .
    qed
  qed
qed

lemma await_onset_window:
  "sorted (map buffered ts) \<Longrightarrow> await_onset ts = Some rest \<Longrightarrow> list_all has_window rest"
proof (induction ts)
  case Nil
  then show ?case by simp
next
  case (Cons t ts)
  show ?case
  proof (cases "has_window t \<and> recent_rms t > silence_threshold")
    case True
    with Cons.prems have "rest = ts" and "\<forall>x\<in>set ts. buffered t \<le> buffered x"
      by auto
    with True show ?thesis by (auto simp: list_all_iff has_window_def)
  next
    case False
    with Cons show ?thesis by auto
  qed
qed

lemma tick_at_simps [simp]:
  "has_window (tick_at i r) = (1 \<le> i)"
  "sub_threshold (tick_at i r) = (r < 0.01)"
  "recent_rms (tick_at i r) = r"
  "buffered (tick_at i r) = 8000 * i"
  by (simp_all add: tick_at_def has_window_def window_samples_eq sub_threshold_def
      silence_threshold_def)

lemma passive_capture_after_onset:
  "await_onset ts = Some rest \<Longrightarrow>
   (passive_capture ts = Some (length ts - length rest + n)) = (await_silence 0.0 rest = Some n)"
  by (cases "await_silence 0.0 rest") (simp_all add: passive_capture_def)

text \<open>
  C2, as the code has it. A window whose RMS is not below the threshold sets the
  accumulated silence to 0.3 seconds. After speech onset, with the buffer only
  growing, the capture stops \<open>n\<close> polls after the onset iff \<open>n\<close> is the first poll at
  which the last \<open>windows_required\<close> (six, that is 3.0 seconds of) windows were all
  sub-threshold: the run that is required is the full duration, at the start of the
  loop and after every louder window.
\<close>

theorem silence_run_required:
  "(has_window t \<and> \<not> sub_threshold t \<longrightarrow> silence_step acc t = 0.3)
   \<and> (sorted (map buffered ts) \<and> await_onset ts = Some rest \<longrightarrow>
        (passive_capture ts = Some (length ts - length rest + n)) =
          (n \<le> length rest \<and> windows_required \<le> silent_run (take n rest)
           \<and> (\<forall>j<n. silent_run (take j rest) < windows_required)))"
proof -
  have 1: "has_window t \<and> \<not> sub_threshold t \<longrightarrow> silence_step acc t = 0.3"
    by (simp add: silence_step_def sub_threshold_def)
  have 2: "(passive_capture ts = Some (length ts - length rest + n)) =
          (n \<le> length rest \<and> windows_required \<le> silent_run (take n rest)
           \<and> (\<forall>j<n. silent_run (take j rest) < windows_required))"
    if "sorted (map buffered ts)" "await_onset ts = Some rest"
    using await_silence_char [of rest 0 "[]" n] await_onset_window [OF that]
      passive_capture_after_onset [OF that(2), of n]
    by (simp add: tracks_def windows_required_eq)
  from 1 2 show ?thesis by blast
qed

theorem silence_run_required_witness:
  "has_window (tick_at 3 0.05) \<and> \<not> sub_threshold (tick_at 3 0.05)
   \<and> silence_step 1 (tick_at 3 0.05) = 0.3
   \<and> sorted (map buffered sample_polls)
   \<and> await_onset sample_polls = Some (drop 2 sample_polls)
   \<and> passive_capture sample_polls = Some 10
   \<and> windows_required \<le> silent_run (take 8 (drop 2 sample_polls))"
proof -
  have h1: "has_window (tick_at 3 0.05) \<and> \<not> sub_threshold (tick_at 3 0.05)"
    by simp
  have h2: "sorted (map buffered sample_polls)"
    by (simp add: sample_polls_def)
  have h3: "await_onset sample_polls = Some (drop 2 sample_polls)"
    by (simp add: sample_polls_def silence_threshold_def)
  have h4: "passive_capture sample_polls =
      Some (length sample_polls - length (drop 2 sample_polls) + 8)"
    by (simp add: passive_capture_def h3)
       (simp add: sample_polls_def silence_step_def silence_threshold_def check_interval_def
        silence_duration_required_def)
  note r = silence_run_required [of _ _ sample_polls "drop 2 sample_polls" 8]
  from r [of "tick_at 3 0.05" 1] h1
  have w1: "silence_step 1 (tick_at 3 0.05) = 0.3" by blast
  from r h2 h3 h4
  have w2: "windows_required \<le> silent_run (take 8 (drop 2 sample_polls))" by blast
  have "passive_capture sample_polls = Some 10"
    using h4 by (simp add: sample_polls_def)
  with h1 h2 h3 w1 w2 show ?thesis by blast
qed

text \<open>
  C2 fails as stated: a window whose RMS equals the threshold leaves the accumulated
  silence at 0.3, not at zero.
\<close>

theorem loud_window_resets_counterexample:
  "has_window loud_tick \<and> recent_rms loud_tick \<ge> silence_threshold
   \<and> silence_step 1 loud_tick = 3 / 10 \<and> silence_step 1 loud_tick \<noteq> 0"
  by (simp add: loud_tick_def has_window_def window_samples_eq silence_threshold_def
      silence_step_def)

end
